theory Spec2Isabelle
  imports Main
begin

section \<open>Data model\<close>

text \<open>
  The program is a task-management backend on a document store (mongoose). The theory
  embeds the reward and streak methods of the User and Task models and three handlers of
  the task router.

  \<^item> A \<^verbatim>\<open>Date\<close> is its number of milliseconds since the epoch, an \<open>int\<close>.
  \<^item> A JavaScript \<^verbatim>\<open>Number\<close> holding a count of points or days is an \<open>int\<close>: the
    source only adds, multiplies by 100 and compares such numbers, which is exact on
    doubles below \<open>2^53\<close>.
  \<^item> An \<^verbatim>\<open>ObjectId\<close> is its string form, so \<^verbatim>\<open>a.toString() !== b.toString()\<close> is
    \<open>a \<noteq> b\<close>. Ids in a request are taken to be well formed.
  \<^item> A collection is the list of its documents; \<^verbatim>\<open>findById\<close> returns the first document
    with the id and \<^verbatim>\<open>save\<close> writes the document in memory back under its id.
  \<^item> Loading and saving succeed, with one exception that the input of a handler decides:
    \<^verbatim>\<open>save\<close> validates the document and throws when a \<^verbatim>\<open>Date\<close> path holds the invalid
    date (see \<open>patchExtensionRequest\<close>). A failure of the storage layer itself is outside
    the model; every \<^verbatim>\<open>catch\<close> block of the modelled methods logs and rethrows, so the
    source has no other behaviour on that path.
  \<^item> Each \<^verbatim>\<open>new Date()\<close> of the source is a separate reading of the clock and a separate
    argument of the model.
  \<^item> \<^verbatim>\<open>console.error\<close> appends to \<open>errorLog\<close>; \<^verbatim>\<open>console.log\<close> is not modelled.
  \<^item> Fields that no modelled operation reads are left out (password, department,
    permissions, description, project, attachments, createdAt, updatedAt).
  Two records have a field \<open>rewardPoints\<close> and two a field \<open>status\<close>; they are written
  with the record's name in front.
\<close>

type_synonym oid = string
type_synonym date = int

datatype role = Admin | Designer | Project_manager | Sales_representative | Employee

datatype rewardType = Points | Gift

record reward =
  reward_type :: rewardType
  reward_value :: int
  reward_description :: string
  reward_date :: date

datatype taskStatus = Pending | In_progress | Completed | Overdue

datatype priority = Low | Medium | High | Urgent

datatype extensionStatus = ExtPending | Approved | Rejected

record extensionRequest =
  requested :: bool
  status :: extensionStatus
  requestedBy :: "oid option"
  requestedAt :: "date option"
  reason :: "string option"
  newDueDate :: "date option"
  approvedBy :: "oid option"
  approvedAt :: "date option"

text \<open>
  The \<^verbatim>\<open>rewardInfo\<close> object of the status route. It is declared before \<open>task\<close> and
  \<open>user\<close>, so that the unqualified \<open>currentStreak\<close> and \<open>isCompletedOnTime\<close> are their
  fields.
\<close>

record rewardInfo =
  pointsEarned :: int
  totalPoints :: int
  currentStreak :: int
  isCompletedOnTime :: bool

record comment =
  comment_text :: string
  postedBy :: oid

record task =
  task_id :: oid
  title :: string
  assignedTo :: oid
  status :: taskStatus
  priority :: priority
  dueDate :: date
  completionDate :: "date option"
  isCompletedOnTime :: bool
  rewardPoints :: int
  createdBy :: oid
  extensionRequest :: extensionRequest
  comments :: "comment list"

record user =
  user_id :: oid
  name :: string
  role :: role
  rewardPoints :: int
  currentStreak :: int
  lastTaskCompletion :: "date option"
  rewards :: "reward list"

datatype notificationType = Comment | Extension_request | Extension_response

record notification =
  recipient :: oid
  notification_task :: oid
  notification_type :: notificationType
  actor :: oid
  message :: string

record world =
  users :: "user list"
  tasks :: "task list"
  notifications :: "notification list"
  errorLog :: "string list"

section \<open>The document store\<close>

definition findById :: "('a \<Rightarrow> oid) \<Rightarrow> 'a list \<Rightarrow> oid \<Rightarrow> 'a option" where
  "findById key xs i = find (\<lambda>x. key x = i) xs"

fun save :: "('a \<Rightarrow> oid) \<Rightarrow> 'a \<Rightarrow> 'a list \<Rightarrow> 'a list" where
  "save key x [] = [x]"
| "save key x (y # ys) = (if key y = key x then x # ys else y # save key x ys)"

definition findUser :: "world \<Rightarrow> oid \<Rightarrow> user option" where
  "findUser w i = findById user_id (users w) i"

definition findTask :: "world \<Rightarrow> oid \<Rightarrow> task option" where
  "findTask w i = findById task_id (tasks w) i"

definition saveUser :: "world \<Rightarrow> user \<Rightarrow> world" where
  "saveUser w u = w\<lparr>users := save user_id u (users w)\<rparr>"

definition saveTask :: "world \<Rightarrow> task \<Rightarrow> world" where
  "saveTask w t = w\<lparr>tasks := save task_id t (tasks w)\<rparr>"

section \<open>JavaScript arithmetic and strings\<close>

text \<open>
  \<^verbatim>\<open>a % b\<close> on integers truncates towards zero: the result has the sign of \<open>a\<close>.
  \<^verbatim>\<open>Math.floor(a / b)\<close> with \<open>b > 0\<close> is \<open>a div b\<close>, which rounds down in HOL.
\<close>

definition jsRem :: "int \<Rightarrow> int \<Rightarrow> int" where
  "jsRem a b = sgn a * (\<bar>a\<bar> mod \<bar>b\<bar>)"

fun showNat :: "nat \<Rightarrow> string" where
  "showNat n = (if n < 10 then [char_of (48 + n)]
                else showNat (n div 10) @ [char_of (48 + n mod 10)])"

declare showNat.simps [simp del]

definition showInt :: "int \<Rightarrow> string" where
  "showInt i = (if i < 0 then CHR ''-'' # showNat (nat (- i)) else showNat (nat i))"

definition msPerDay :: int where
  "msPerDay = 1000 * 60 * 60 * 24"

section \<open>User methods\<close>

text \<open>
  \<^verbatim>\<open>userSchema.methods.addRewardPoints(points, reason)\<close>. \<open>clk\<close> is the reading of
  \<^verbatim>\<open>new Date()\<close> that dates the log entry.
\<close>

definition addRewardPoints :: "date \<Rightarrow> int \<Rightarrow> string \<Rightarrow> world \<times> user \<Rightarrow> world \<times> user" where
  "addRewardPoints clk points why wu =
     (let (w, u) = wu;
          u1 = u\<lparr>user.rewardPoints := user.rewardPoints u + points\<rparr>;
          u2 = u1\<lparr>rewards := rewards u1 @
                 [\<lparr>reward_type = Points, reward_value = points,
                   reward_description = why, reward_date = clk\<rparr>]\<rparr>
      in (saveUser w u2, u2))"

text \<open>
  \<^verbatim>\<open>userSchema.methods.updateStreak(taskCompletionDate)\<close>. \<open>now\<close> is the method's own
  \<^verbatim>\<open>new Date()\<close>, \<open>clk\<close> the reading inside the nested \<open>addRewardPoints\<close>. A \<^verbatim>\<open>Date\<close>
  object is truthy, so \<^verbatim>\<open>!lastCompletion\<close> holds exactly for \<^verbatim>\<open>null\<close>.
\<close>

definition streakStep :: "date \<Rightarrow> user \<Rightarrow> user" where
  "streakStep now u =
     (case lastTaskCompletion u of
        None \<Rightarrow> u\<lparr>currentStreak := 1\<rparr>
      | Some lastCompletion \<Rightarrow>
          (let daysDiff = (now - lastCompletion) div msPerDay
           in if daysDiff = 1 then u\<lparr>currentStreak := currentStreak u + 1\<rparr>
              else if daysDiff > 1 then u\<lparr>currentStreak := 1\<rparr>
              else u))"

definition updateStreak :: "date \<Rightarrow> date \<Rightarrow> date \<Rightarrow> world \<times> user \<Rightarrow> world \<times> user" where
  "updateStreak now clk taskCompletionDate wu =
     (let (w, u) = wu;
          u1 = streakStep now u;
          u2 = u1\<lparr>lastTaskCompletion := Some taskCompletionDate\<rparr>;
          (w3, u3) =
            (if jsRem (currentStreak u2) 10 = 0
             then (let giftPoints = currentStreak u2 * 100
                   in addRewardPoints clk giftPoints
                        (''Streak reward for '' @ showInt (currentStreak u2) @ '' consecutive tasks'')
                        (w, u2))
             else (w, u2))
      in (saveUser w3 u3, u3))"

section \<open>Task.completeTask\<close>

text \<open>
  \<^verbatim>\<open>dueDate.setHours(23, 59, 59, 999)\<close> works in the server's local time. \<open>tz\<close> is the
  offset of local time from UTC in milliseconds, taken as fixed (no daylight-saving
  change within the day).
\<close>

definition localDay :: "int \<Rightarrow> date \<Rightarrow> int" where
  "localDay tz d = (d + tz) div msPerDay"

definition endOfDay :: "int \<Rightarrow> date \<Rightarrow> date" where
  "endOfDay tz d = localDay tz d * msPerDay + (msPerDay - 1) - tz"

text \<open>The clock readings taken on the user side of one completion.\<close>

record clock =
  streakNow :: date
  bonusDate :: date
  rewardDate :: date

text \<open>
  The user side is the same in both variants of the method but for the text of the
  reason: load the assignee, on an on-time completion update the streak and add the
  points, on a missing assignee log an error.
\<close>

definition rewardUser :: "date \<Rightarrow> clock \<Rightarrow> string \<Rightarrow> world \<Rightarrow> task \<Rightarrow> world" where
  "rewardUser now ck why w t =
     (case findUser w (assignedTo t) of
        Some u \<Rightarrow>
          (if isCompletedOnTime t
           then (let wu1 = updateStreak (streakNow ck) (bonusDate ck) now (w, u);
                     wu2 = addRewardPoints (rewardDate ck) (task.rewardPoints t) why wu1
                 in fst wu2)
           else w)
      | None \<Rightarrow>
          w\<lparr>errorLog := errorLog w @
               [''User '' @ assignedTo t @ '' not found for task '' @ task_id t]\<rparr>)"

text \<open>\<^verbatim>\<open>src/models/Task.js\<close>: the due date extended to the end of its day, a flat 50 points.\<close>

definition completeTask :: "int \<Rightarrow> date \<Rightarrow> clock \<Rightarrow> world \<Rightarrow> task \<Rightarrow> world \<times> task" where
  "completeTask tz now ck w t =
     (let t1 = t\<lparr>task.status := Completed, completionDate := Some now\<rparr>;
          due = endOfDay tz (dueDate t1);
          t2 = t1\<lparr>isCompletedOnTime := (now \<le> due)\<rparr>;
          t3 = (if isCompletedOnTime t2 then t2\<lparr>task.rewardPoints := 50\<rparr>
                else t2\<lparr>task.rewardPoints := 0\<rparr>);
          w1 = saveTask w t3
      in (rewardUser now ck (''On-time task completion: '' @ title t3) w1 t3, t3))"

text \<open>
  The second copy of the Task model (\<^verbatim>\<open>src/unnamed/part_001\<close>): the raw due date, 50
  points plus a bonus by priority, and no assignment to \<open>rewardPoints\<close> on a late
  completion.
\<close>

definition priorityBonus :: "priority \<Rightarrow> int" where
  "priorityBonus p = (case p of Urgent \<Rightarrow> 50 | High \<Rightarrow> 30 | Medium \<Rightarrow> 20 | Low \<Rightarrow> 10)"

definition completeTask_tiered :: "date \<Rightarrow> clock \<Rightarrow> world \<Rightarrow> task \<Rightarrow> world \<times> task" where
  "completeTask_tiered now ck w t =
     (let t1 = t\<lparr>task.status := Completed, completionDate := Some now\<rparr>;
          t2 = t1\<lparr>isCompletedOnTime := (now \<le> dueDate t1)\<rparr>;
          t3 = (if isCompletedOnTime t2
                then (let t' = t2\<lparr>task.rewardPoints := 50\<rparr>
                      in t'\<lparr>task.rewardPoints := task.rewardPoints t' + priorityBonus (priority t')\<rparr>)
                else t2);
          w1 = saveTask w t3
      in (rewardUser now ck (''Task completion reward: '' @ title t3) w1 t3, t3))"

section \<open>Handlers of the task router\<close>

text \<open>
  \<^verbatim>\<open>src/unnamed/part_003\<close>. The middleware \<^verbatim>\<open>auth\<close> and \<^verbatim>\<open>isAdmin\<close> is not among the sources:
  a handler is modelled from the point where its middleware has passed, with \<open>req_user_id\<close>
  and \<open>req_user_role\<close> the \<^verbatim>\<open>req.user\<close> that \<^verbatim>\<open>auth\<close> has set. A response is the HTTP
  status with the message of an error, or the body of a 200.
\<close>

record request =
  params_id :: oid
  req_user_id :: oid
  req_user_role :: role

datatype 'a response = Ok 'a | Fail nat string

definition validStatus :: "string \<Rightarrow> taskStatus option" where
  "validStatus s =
     (if s = ''pending'' then Some Pending
      else if s = ''in_progress'' then Some In_progress
      else if s = ''completed'' then Some Completed
      else if s = ''overdue'' then Some Overdue
      else None)"

text \<open>
  \<^verbatim>\<open>PATCH /:id/status\<close>. \<open>body_status\<close> is \<^verbatim>\<open>req.body.status\<close>, \<open>None\<close> when absent; the
  empty string is falsy. The router requires \<^verbatim>\<open>../models/Task\<close>, the model of
  \<^verbatim>\<open>src/models/Task.js\<close>. The body of the 200 is the task read back and \<open>rewardInfo\<close>.
\<close>

definition patchStatus ::
  "int \<Rightarrow> date \<Rightarrow> clock \<Rightarrow> request \<Rightarrow> string option \<Rightarrow> world
     \<Rightarrow> world \<times> (task option \<times> rewardInfo option) response" where
  "patchStatus tz now ck req body_status w =
     (case body_status of
        None \<Rightarrow> (w, Fail 400 ''Status is required'')
      | Some s \<Rightarrow>
          if s = [] then (w, Fail 400 ''Status is required'')
          else
            (case validStatus s of
               None \<Rightarrow> (w, Fail 400
                 ''Invalid status value. Must be one of: pending, in_progress, completed, overdue'')
             | Some st \<Rightarrow>
                 (case findTask w (params_id req) of
                    None \<Rightarrow> (w, Fail 404 ''Task not found'')
                  | Some t \<Rightarrow>
                      (let isAssigned = (assignedTo t = req_user_id req);
                           isAdmin = (req_user_role req = Admin)
                       in if \<not> isAssigned \<and> \<not> isAdmin
                          then (w, Fail 403 ''You are not authorized to update this task status'')
                          else
                            (let t1 = t\<lparr>task.status := st\<rparr>
                             in if st = Completed
                                then
                                  (let (w1, completedTask) = completeTask tz now ck w t1;
                                       info =
                                         (case findUser w1 (assignedTo t1) of
                                            Some u \<Rightarrow> Some
                                              \<lparr>pointsEarned = task.rewardPoints completedTask,
                                               totalPoints = user.rewardPoints u,
                                               currentStreak = user.currentStreak u,
                                               isCompletedOnTime = task.isCompletedOnTime completedTask\<rparr>
                                          | None \<Rightarrow> None)
                                   in (w1, Ok (findTask w1 (params_id req), info)))
                                else
                                  (let w1 = saveTask w t1
                                   in (w1, Ok (findTask w1 (params_id req), None))))))))"

text \<open>\<^verbatim>\<open>POST /:id/comments\<close>. \<open>body_text\<close> is \<^verbatim>\<open>req.body.text\<close>.\<close>

definition commentNotification :: "task \<Rightarrow> oid \<Rightarrow> string \<Rightarrow> oid \<Rightarrow> notification" where
  "commentNotification t commenter commenterName r =
     \<lparr>recipient = r, notification_task = task_id t, notification_type = Comment,
      actor = commenter,
      message = ''New comment on task '' @ [CHR 0x22] @ title t @ [CHR 0x22] @ '' by '' @ commenterName\<rparr>"

definition addComment :: "request \<Rightarrow> string \<Rightarrow> world \<Rightarrow> world \<times> task response" where
  "addComment req body_text w =
     (case findTask w (params_id req) of
        None \<Rightarrow> (w, Fail 404 ''Task not found'')
      | Some t \<Rightarrow>
          (let t1 = t\<lparr>comments := comments t @
                      [\<lparr>comment_text = body_text, postedBy = req_user_id req\<rparr>]\<rparr>;
               w1 = saveTask w t1;
               commenterName =
                 (case findUser w1 (req_user_id req) of Some u \<Rightarrow> name u | None \<Rightarrow> ''unknown'');
               notify = commentNotification t1 (req_user_id req) commenterName;
               toCreator = (if createdBy t1 \<noteq> req_user_id req then [notify (createdBy t1)] else []);
               toAssignee = (if assignedTo t1 \<noteq> req_user_id req then [notify (assignedTo t1)] else []);
               adminUsers = filter (\<lambda>u. role u = Admin) (users w1);
               toAdmins =
                 map (\<lambda>admin. notify (user_id admin))
                   (filter (\<lambda>admin. user_id admin \<noteq> req_user_id req
                                  \<and> user_id admin \<noteq> createdBy t1
                                  \<and> user_id admin \<noteq> assignedTo t1) adminUsers)
           in (w1\<lparr>notifications := notifications w1 @ toCreator @ toAssignee @ toAdmins\<rparr>, Ok t1)))"

text \<open>
  The value of \<^verbatim>\<open>new Date(x)\<close>: an instant, or the invalid date, whose time value is
  \<^verbatim>\<open>NaN\<close>. \<^verbatim>\<open>a <= b\<close> on dates compares the time values, and a comparison with \<^verbatim>\<open>NaN\<close> is
  false.
\<close>

datatype jsDate = Instant date | InvalidDate

definition dateLe :: "jsDate \<Rightarrow> date \<Rightarrow> bool" where
  "dateLe a b = (case a of Instant x \<Rightarrow> x \<le> b | InvalidDate \<Rightarrow> False)"

text \<open>
  \<^verbatim>\<open>PATCH /:id/extension-request\<close>. \<open>body_status\<close> and \<open>body_newDueDate\<close> are the two fields
  of the body; \<open>body_newDueDate\<close> is \<open>None\<close> when the field is absent or falsy and
  \<open>Some p\<close> when \<^verbatim>\<open>new Date(newDueDate)\<close> is \<open>p\<close>. \<open>clk\<close> is the reading of \<^verbatim>\<open>new Date()\<close> for
  \<open>approvedAt\<close>.

  With the invalid date the guard \<^verbatim>\<open>proposedDate <= task.dueDate\<close> is false, so the handler
  goes on, assigns the invalid date to \<open>dueDate\<close> and to the request's \<open>newDueDate\<close> and calls
  \<^verbatim>\<open>save\<close>. \<^verbatim>\<open>save\<close> validates the document and casts no invalid date to a \<^verbatim>\<open>Date\<close> path: it
  throws, nothing is written, and the handler's \<^verbatim>\<open>catch\<close> answers 500.
\<close>

definition extensionResponse :: "task \<Rightarrow> oid \<Rightarrow> string \<Rightarrow> notification" where
  "extensionResponse t admin s =
     \<lparr>recipient = assignedTo t, notification_task = task_id t,
      notification_type = Extension_response, actor = admin,
      message = ''Your extension request for task '' @ [CHR 0x22] @ title t @ [CHR 0x22]
                @ '' has been '' @ s\<rparr>"

definition patchExtensionRequest ::
  "date \<Rightarrow> request \<Rightarrow> string option \<Rightarrow> jsDate option \<Rightarrow> world \<Rightarrow> world \<times> task response" where
  "patchExtensionRequest clk req body_status body_newDueDate w =
     (case findTask w (params_id req) of
        None \<Rightarrow> (w, Fail 404 ''Task not found'')
      | Some t \<Rightarrow>
          if \<not> requested (extensionRequest t)
          then (w, Fail 400 ''No extension request found for this task'')
          else if body_status \<noteq> Some ''approved'' \<and> body_status \<noteq> Some ''rejected''
          then (w, Fail 400 ''Valid status (approved/rejected) is required'')
          else if body_status = Some ''approved''
          then
            (case body_newDueDate of
               None \<Rightarrow> (w, Fail 400 ''New due date is required when approving extension'')
             | Some proposedDate \<Rightarrow>
                 if dateLe proposedDate (dueDate t)
                 then (w, Fail 400 ''New due date must be after current due date'')
                 else
                   (case proposedDate of
                      InvalidDate \<Rightarrow> (w, Fail 500 ''Error handling extension request'')
                    | Instant d \<Rightarrow>
                        (let t1 = t\<lparr>dueDate := d,
                                    extensionRequest := (extensionRequest t)
                                      \<lparr>extensionRequest.status := Approved,
                                       approvedBy := Some (req_user_id req),
                                       approvedAt := Some clk,
                                       newDueDate := Some d\<rparr>\<rparr>;
                             w1 = saveTask w t1
                         in (w1\<lparr>notifications := notifications w1 @
                                  [extensionResponse t1 (req_user_id req) ''approved'']\<rparr>,
                             Ok t1))))
          else
            (let t1 = t\<lparr>extensionRequest := (extensionRequest t)
                                \<lparr>extensionRequest.status := Rejected,
                                 approvedBy := Some (req_user_id req),
                                 approvedAt := Some clk\<rparr>\<rparr>;
                 w1 = saveTask w t1
             in (w1\<lparr>notifications := notifications w1 @
                      [extensionResponse t1 (req_user_id req) ''rejected'']\<rparr>, Ok t1)))"

section \<open>New documents and example values\<close>

text \<open>The defaults of the two schemas for a document that has just been created.\<close>

definition noExtension :: extensionRequest where
  "noExtension = \<lparr>requested = False, status = ExtPending, requestedBy = None, requestedAt = None,
     reason = None, newDueDate = None, approvedBy = None, approvedAt = None\<rparr>"

definition newUser :: "oid \<Rightarrow> string \<Rightarrow> role \<Rightarrow> user" where
  "newUser i n r = \<lparr>user_id = i, name = n, role = r, rewardPoints = 0, currentStreak = 0,
     lastTaskCompletion = None, rewards = []\<rparr>"

text \<open>
  The task of the specification's scenario: priority high, due 2024-01-10 (midnight UTC,
  1704844800000 ms), assigned to an employee and created by an admin.
\<close>

definition demoTask :: task where
  "demoTask = \<lparr>task_id = ''t1'', title = ''Draft'', assignedTo = ''u1'', status = Pending,
     priority = High, dueDate = 1704844800000, completionDate = None, isCompletedOnTime = False,
     rewardPoints = 0, createdBy = ''a1'', extensionRequest = noExtension, comments = []\<rparr>"

definition demoWorld :: world where
  "demoWorld = \<lparr>users = [newUser ''u1'' ''Asha'' Employee, newUser ''a1'' ''Bo'' Admin],
     tasks = [demoTask], notifications = [], errorLog = []\<rparr>"

definition demoClock :: "date \<Rightarrow> clock" where
  "demoClock t = \<lparr>streakNow = t + 5, bonusDate = t + 6, rewardDate = t + 7\<rparr>"

text \<open>A request of the assignee on the demo task, and the world after one and after two
  completions of that task through the status route, a minute apart, both on time.\<close>

definition demoRequest :: request where
  "demoRequest = \<lparr>params_id = ''t1'', req_user_id = ''u1'', req_user_role = Employee\<rparr>"

definition completedOnce :: world where
  "completedOnce = fst (patchStatus 0 1704924000000 (demoClock 1704924000000) demoRequest
                          (Some ''completed'') demoWorld)"

definition completedTwice :: world where
  "completedTwice = fst (patchStatus 0 1704924060000 (demoClock 1704924060000) demoRequest
                           (Some ''completed'') completedOnce)"

definition onceTask :: task where
  "onceTask = demoTask\<lparr>task.status := Completed, completionDate := Some 1704924000000,
                isCompletedOnTime := True, task.rewardPoints := 50\<rparr>"

definition onceUser :: user where
  "onceUser = \<lparr>user_id = ''u1'', name = ''Asha'', role = Employee, rewardPoints = 50,
     currentStreak = 1, lastTaskCompletion = Some 1704924000000,
     rewards = [\<lparr>reward_type = Points, reward_value = 50,
                 reward_description = ''On-time task completion: Draft'',
                 reward_date = 1704924000007\<rparr>]\<rparr>"

text \<open>A task whose assignee is no user of the world.\<close>

definition ghostTask :: task where
  "ghostTask = demoTask\<lparr>assignedTo := ''u9''\<rparr>"

text \<open>The demo task with an open extension request, and the admin's request on it.\<close>

definition askedTask :: task where
  "askedTask = demoTask\<lparr>extensionRequest := noExtension
     \<lparr>requested := True, requestedBy := Some ''u1'', requestedAt := Some 1704800000000,
      reason := Some ''blocked'', newDueDate := Some 1705017600000\<rparr>\<rparr>"

definition askedWorld :: world where
  "askedWorld = demoWorld\<lparr>tasks := [askedTask]\<rparr>"

definition adminRequest :: request where
  "adminRequest = \<lparr>params_id = ''t1'', req_user_id = ''a1'', req_user_role = Admin\<rparr>"


text \<open>
  A new user who calls \<open>updateStreak\<close> once a day at the same hour for ten days, and a
  user with a streak of 3 whose last completion was at 23:00 UTC of day 0.
\<close>

definition tenDays :: "world \<times> user" where
  "tenDays = foldl (\<lambda>wu d. updateStreak d d d wu) (demoWorld, newUser ''u1'' ''Asha'' Employee)
      (map (\<lambda>k. k * 86400000) [0, 1, 2, 3, 4, 5, 6, 7, 8, 9])"

definition streakUser :: user where
  "streakUser = \<lparr>user_id = ''u1'', name = ''Asha'', role = Employee, rewardPoints = 50,
     currentStreak = 3, lastTaskCompletion = Some 82800000,
     rewards = [\<lparr>reward_type = Points, reward_value = 50,
                 reward_description = ''On-time task completion: Draft'',
                 reward_date = 82800000\<rparr>]\<rparr>"

section \<open>The ledger of points and the reachable worlds\<close>

text \<open>The sum of the values of the entries of type \<^verbatim>\<open>points\<close> of a reward log.\<close>

definition pointsTotal :: "reward list \<Rightarrow> int" where
  "pointsTotal rs = sum_list (map reward_value (filter (\<lambda>r. reward_type r = Points) rs))"

definition sound :: "user \<Rightarrow> bool" where
  "sound u \<longleftrightarrow> user.rewardPoints u = pointsTotal (rewards u) \<and> 0 \<le> currentStreak u"

definition allSound :: "world \<Rightarrow> bool" where
  "allSound w \<longleftrightarrow> (\<forall>u \<in> set (users w). sound u)"

text \<open>
  Modelled from the spec: the route that registers a user is not among the sources. By the
  specification a user is created at registration and only the reward engine changes
  \<open>rewardPoints\<close> and \<open>currentStreak\<close> afterwards, so registration adds a document with the
  defaults of the user schema.
\<close>

definition register :: "oid \<Rightarrow> string \<Rightarrow> role \<Rightarrow> world \<Rightarrow> world" where
  "register i n r w = w\<lparr>users := users w @ [newUser i n r]\<rparr>"

text \<open>
  One step of the system. The three handlers and both copies of \<open>completeTask\<close> are steps on
  any arguments. The routes that create, edit and delete tasks write task documents only:
  they are the step \<open>writeTasks\<close>, which replaces the collection of tasks by any other.
\<close>

inductive step :: "world \<Rightarrow> world \<Rightarrow> bool" where
  registered: "step w (register i n r w)"
| writeTasks: "step w (w\<lparr>tasks := ts\<rparr>)"
| status: "step w (fst (patchStatus tz now ck req body_status w))"
| comment: "step w (fst (addComment req body_text w))"
| extension: "step w (fst (patchExtensionRequest clk req body_status body_newDueDate w))"
| complete: "step w (fst (completeTask tz now ck w t))"
| completeTiered: "step w (fst (completeTask_tiered now ck w t))"

inductive reachable :: "world \<Rightarrow> bool" where
  start: "reachable \<lparr>users = [], tasks = [], notifications = [], errorLog = []\<rparr>"
| later: "reachable w \<Longrightarrow> step w w' \<Longrightarrow> reachable w'"

section \<open>Facts about the store\<close>

lemma findById_save: "findById key (save key x xs) (key x) = Some x"
  by (induction xs) (simp_all add: findById_def)

lemma findById_save_other:
  "i \<noteq> key x \<Longrightarrow> findById key (save key x xs) i = findById key xs i"
  by (induction xs) (simp_all add: findById_def)

lemma findById_key: "findById key xs i = Some x \<Longrightarrow> key x = i"
  by (induction xs) (auto simp: findById_def split: if_splits)

lemma findById_mem: "findById key xs i = Some x \<Longrightarrow> x \<in> set xs"
  by (induction xs) (auto simp: findById_def split: if_splits)

lemma set_save: "set (save key x xs) \<subseteq> insert x (set xs)"
  by (induction xs) auto

lemma tasks_addRewardPoints: "tasks (fst (addRewardPoints clk p why wu)) = tasks (fst wu)"
  by (cases wu) (simp add: addRewardPoints_def saveUser_def Let_def)

lemma tasks_updateStreak: "tasks (fst (updateStreak now clk d wu)) = tasks (fst wu)"
  by (cases wu) (simp add: updateStreak_def saveUser_def Let_def split_def tasks_addRewardPoints)

lemma tasks_rewardUser: "tasks (rewardUser now ck why w t) = tasks w"
  by (simp add: rewardUser_def Let_def tasks_addRewardPoints tasks_updateStreak split: option.splits)

lemma rewardUser_late: "\<not> isCompletedOnTime t \<Longrightarrow> users (rewardUser now ck why w t) = users w"
  by (simp add: rewardUser_def split: option.splits)

section \<open>The end of the due date's day\<close>

lemma msPerDay_pos: "0 < msPerDay"
  by (simp add: msPerDay_def)

lemma endOfDay_ge: "d \<le> endOfDay tz d"
proof -
  have "(d + tz) mod msPerDay \<le> msPerDay - 1"
    using pos_mod_bound [of msPerDay "d + tz"] msPerDay_pos by linarith
  moreover have "d + tz = (d + tz) div msPerDay * msPerDay + (d + tz) mod msPerDay"
    by simp
  ultimately show ?thesis
    unfolding endOfDay_def localDay_def by linarith
qed

lemma endOfDay_localDay: "localDay tz (endOfDay tz d) = localDay tz d"
  unfolding endOfDay_def localDay_def msPerDay_def by simp

lemma endOfDay_next: "localDay tz (endOfDay tz d + 1) = localDay tz d + 1"
  unfolding endOfDay_def localDay_def msPerDay_def by simp

lemma endOfDay_time:
  "(endOfDay tz d + tz) mod msPerDay = 23 * 3600000 + 59 * 60000 + 59 * 1000 + 999"
  unfolding endOfDay_def localDay_def msPerDay_def by simp

section \<open>Completion on time and late\<close>

lemma findTask_completeTask:
  "findTask (fst (completeTask tz now ck w t)) (task_id t) = Some (snd (completeTask tz now ck w t))"
proof -
  let ?t = "snd (completeTask tz now ck w t)"
  have "task_id ?t = task_id t"
    by (simp add: completeTask_def Let_def)
  moreover have "tasks (fst (completeTask tz now ck w t)) = save task_id ?t (tasks w)"
    by (simp add: completeTask_def Let_def tasks_rewardUser saveTask_def)
  ultimately show ?thesis
    using findById_save [of task_id ?t "tasks w"] by (simp add: findTask_def)
qed

text \<open>
  C3. A task completed at or before the last millisecond (23:59:59.999 local time) of the
  day of its due date is on time: \<open>completeTask\<close> of \<^verbatim>\<open>src/models/Task.js\<close> sets
  \<open>isCompletedOnTime\<close> to true and \<open>rewardPoints\<close> to a positive value, on the document it
  returns and on the one it has saved.
\<close>

theorem completeTask_on_time:
  assumes "now \<le> endOfDay tz (dueDate t)"
  shows "isCompletedOnTime (snd (completeTask tz now ck w t))
       \<and> 0 < task.rewardPoints (snd (completeTask tz now ck w t))
       \<and> findTask (fst (completeTask tz now ck w t)) (task_id t)
           = Some (snd (completeTask tz now ck w t))"
  using assms findTask_completeTask [of tz now ck w t] by (simp add: completeTask_def Let_def)

theorem completeTask_on_time_witness:
  "(1704924000000 :: int) \<le> endOfDay 0 (dueDate demoTask)
   \<and> isCompletedOnTime
       (snd (completeTask 0 1704924000000 (demoClock 1704924000000) demoWorld demoTask))
   \<and> 0 < task.rewardPoints
       (snd (completeTask 0 1704924000000 (demoClock 1704924000000) demoWorld demoTask))"
proof -
  have h: "(1704924000000 :: int) \<le> endOfDay 0 (dueDate demoTask)"
    by (simp add: demoTask_def endOfDay_def localDay_def msPerDay_def)
  show ?thesis
    using h completeTask_on_time [OF h, of "demoClock 1704924000000" demoWorld] by simp
qed

text \<open>
  C4. An on-time completion sets the task's \<open>rewardPoints\<close> to 50 plus the bonus of its
  priority (urgent 50, high 30, medium 20, low 10) in the tiered variant and to 50 in the
  flat variant; a task of priority high gets 80 and 50.
\<close>

theorem completeTask_reward_points:
  "(isCompletedOnTime (snd (completeTask_tiered now ck w t)) \<longrightarrow>
      task.rewardPoints (snd (completeTask_tiered now ck w t)) =
        50 + (case priority t of Urgent \<Rightarrow> 50 | High \<Rightarrow> 30 | Medium \<Rightarrow> 20 | Low \<Rightarrow> 10))
 \<and> (isCompletedOnTime (snd (completeTask tz now ck w t)) \<longrightarrow>
      task.rewardPoints (snd (completeTask tz now ck w t)) = 50)
 \<and> (priority t = High \<longrightarrow>
      (isCompletedOnTime (snd (completeTask_tiered now ck w t)) \<longrightarrow>
         task.rewardPoints (snd (completeTask_tiered now ck w t)) = 80)
    \<and> (isCompletedOnTime (snd (completeTask tz now ck w t)) \<longrightarrow>
         task.rewardPoints (snd (completeTask tz now ck w t)) = 50))"
  by (simp add: completeTask_def completeTask_tiered_def Let_def priorityBonus_def
           split: priority.splits)

theorem completeTask_reward_points_witness:
  "priority demoTask = High
 \<and> isCompletedOnTime
     (snd (completeTask_tiered 1704844800000 (demoClock 1704844800000) demoWorld demoTask))
 \<and> task.rewardPoints
     (snd (completeTask_tiered 1704844800000 (demoClock 1704844800000) demoWorld demoTask)) = 80
 \<and> isCompletedOnTime
     (snd (completeTask 0 1704924000000 (demoClock 1704924000000) demoWorld demoTask))
 \<and> task.rewardPoints
     (snd (completeTask 0 1704924000000 (demoClock 1704924000000) demoWorld demoTask)) = 50"
proof -
  have p: "priority demoTask = High"
    by (simp add: demoTask_def)
  have a: "isCompletedOnTime
      (snd (completeTask_tiered 1704844800000 (demoClock 1704844800000) demoWorld demoTask))"
    by (simp add: completeTask_tiered_def Let_def demoTask_def)
  have b: "isCompletedOnTime
      (snd (completeTask 0 1704924000000 (demoClock 1704924000000) demoWorld demoTask))"
    by (simp add: completeTask_def Let_def demoTask_def endOfDay_def localDay_def msPerDay_def)
  show ?thesis
    using p a b
      completeTask_reward_points
        [of 1704844800000 "demoClock 1704844800000" demoWorld demoTask 0]
      completeTask_reward_points
        [of 1704924000000 "demoClock 1704924000000" demoWorld demoTask 0]
    by simp
qed

text \<open>
  C5. A task completed after the end of the day of its due date is late: \<open>completeTask\<close>
  of \<^verbatim>\<open>src/models/Task.js\<close> sets \<open>isCompletedOnTime\<close> to false and \<open>rewardPoints\<close> to 0,
  and the collection of users is left as it was, so the assignee's \<open>currentStreak\<close>,
  \<open>rewardPoints\<close>, \<open>lastTaskCompletion\<close> and \<open>rewards\<close> are unchanged.
\<close>

theorem completeTask_late:
  assumes "endOfDay tz (dueDate t) < now"
  shows "\<not> isCompletedOnTime (snd (completeTask tz now ck w t))
       \<and> task.rewardPoints (snd (completeTask tz now ck w t)) = 0
       \<and> findTask (fst (completeTask tz now ck w t)) (task_id t)
           = Some (snd (completeTask tz now ck w t))
       \<and> users (fst (completeTask tz now ck w t)) = users w"
  using assms findTask_completeTask [of tz now ck w t]
  by (simp add: completeTask_def Let_def rewardUser_late saveTask_def)

theorem completeTask_late_witness:
  "endOfDay 0 (dueDate demoTask) < 1704931200000
   \<and> \<not> isCompletedOnTime
       (snd (completeTask 0 1704931200000 (demoClock 1704931200000) demoWorld demoTask))
   \<and> task.rewardPoints
       (snd (completeTask 0 1704931200000 (demoClock 1704931200000) demoWorld demoTask)) = 0
   \<and> users (fst (completeTask 0 1704931200000 (demoClock 1704931200000) demoWorld demoTask))
       = users demoWorld"
proof -
  have h: "endOfDay 0 (dueDate demoTask) < 1704931200000"
    by (simp add: demoTask_def endOfDay_def localDay_def msPerDay_def)
  show ?thesis
    using h completeTask_late [OF h, of "demoClock 1704931200000" demoWorld] by simp
qed

lemma users_completeTask_late:
  "endOfDay tz (dueDate t) < now \<Longrightarrow> users (fst (completeTask tz now ck w t)) = users w"
  by (simp add: completeTask_def Let_def rewardUser_late saveTask_def)

text \<open>
  The copy of the model in \<^verbatim>\<open>src/unnamed/part_001\<close> compares with the due date itself
  and leaves \<open>rewardPoints\<close> as it was on a late completion.
\<close>

lemma completeTask_tiered_after_due:
  "dueDate t < now \<Longrightarrow>
     \<not> isCompletedOnTime (snd (completeTask_tiered now ck w t))
   \<and> task.rewardPoints (snd (completeTask_tiered now ck w t)) = task.rewardPoints t
   \<and> users (fst (completeTask_tiered now ck w t)) = users w"
  by (simp add: completeTask_tiered_def Let_def rewardUser_late saveTask_def)

section \<open>The streak\<close>

lemma snd_addRewardPoints:
  "snd (addRewardPoints clk p why (w, u)) =
     u\<lparr>user.rewardPoints := user.rewardPoints u + p,
       rewards := rewards u @
         [\<lparr>reward_type = Points, reward_value = p, reward_description = why,
           reward_date = clk\<rparr>]\<rparr>"
  by (simp add: addRewardPoints_def Let_def)

lemma streakStep_Some:
  "lastTaskCompletion u = Some l \<Longrightarrow> streakStep now u =
     (if (now - l) div msPerDay = 1 then u\<lparr>currentStreak := currentStreak u + 1\<rparr>
      else if (now - l) div msPerDay > 1 then u\<lparr>currentStreak := 1\<rparr> else u)"
  by (simp add: streakStep_def Let_def)

lemma streakStep_fields:
  "user.rewardPoints (streakStep now u) = user.rewardPoints u"
  "rewards (streakStep now u) = rewards u"
  by (simp_all add: streakStep_def Let_def split: option.splits)

lemma streakStep_nonneg: "0 \<le> currentStreak u \<Longrightarrow> 0 \<le> currentStreak (streakStep now u)"
  by (simp add: streakStep_def Let_def split: option.splits)

lemma currentStreak_updateStreak:
  "currentStreak (snd (updateStreak now clk d (w, u))) = currentStreak (streakStep now u)"
  by (simp add: updateStreak_def Let_def split_def snd_addRewardPoints)

lemma lastTaskCompletion_updateStreak:
  "lastTaskCompletion (snd (updateStreak now clk d (w, u))) = Some d"
  by (simp add: updateStreak_def Let_def split_def snd_addRewardPoints)

text \<open>
  What the code does about the bonus: an entry of \<open>currentStreak * 100\<close> points is appended
  exactly when the streak after the update leaves remainder 0 on division by 10, whether
  or not the update has changed the streak.
\<close>

lemma rewards_updateStreak:
  "rewards (snd (updateStreak now clk d (w, u))) = rewards u @
     (if jsRem (currentStreak (streakStep now u)) 10 = 0
      then [\<lparr>reward_type = Points, reward_value = currentStreak (streakStep now u) * 100,
             reward_description = ''Streak reward for ''
               @ showInt (currentStreak (streakStep now u)) @ '' consecutive tasks'',
             reward_date = clk\<rparr>]
      else [])"
  by (simp add: updateStreak_def Let_def split_def snd_addRewardPoints streakStep_fields)

lemma rewardPoints_updateStreak:
  "user.rewardPoints (snd (updateStreak now clk d (w, u))) = user.rewardPoints u +
     (if jsRem (currentStreak (streakStep now u)) 10 = 0
      then currentStreak (streakStep now u) * 100 else 0)"
  by (simp add: updateStreak_def Let_def split_def snd_addRewardPoints streakStep_fields)

lemma jsRem_10_iff: "jsRem a 10 = 0 \<longleftrightarrow> 10 dvd a"
  unfolding jsRem_def by (auto simp: sgn_if dvd_eq_mod_eq_0 zmod_zminus1_eq_if)

text \<open>
  C1. The claim: a call of \<open>updateStreak\<close> awards the bonus exactly when the streak becomes
  a positive multiple of 10, and not when a repeat on the same day leaves the streak as it
  is. The code tests the streak after the update only. A new user who completes a task at
  the same hour on ten days in a row has a streak of 10 and one bonus of 1000 points; one
  more call an hour later leaves the streak at 10 and awards 1000 points again.
\<close>

theorem updateStreak_bonus_repeats:
  "currentStreak (snd tenDays) = 10
 \<and> lastTaskCompletion (snd tenDays) = Some 777600000
 \<and> map reward_value (rewards (snd tenDays)) = [1000]
 \<and> (781200000 - 777600000) div msPerDay = 0
 \<and> currentStreak (snd (updateStreak 781200000 781200000 781200000 tenDays)) = 10
 \<and> map reward_value (rewards (snd (updateStreak 781200000 781200000 781200000 tenDays)))
      = [1000, 1000]
 \<and> user.rewardPoints (snd (updateStreak 781200000 781200000 781200000 tenDays)) = 2000"
  by code_simp

lemma div_day_one: "msPerDay \<le> x \<Longrightarrow> x < 2 * msPerDay \<Longrightarrow> x div msPerDay = 1"
  unfolding msPerDay_def by simp

lemma div_day_zero: "0 \<le> x \<Longrightarrow> x < msPerDay \<Longrightarrow> x div msPerDay = 0"
  by simp

text \<open>
  Two instants on consecutive days of the calendar are less than 48 hours apart, so their
  difference in whole days is 1 when they are at least 24 hours apart and 0 otherwise.
\<close>

lemma consecutive_days_diff:
  assumes "localDay tz now = localDay tz l + 1"
  shows "(now - l) div msPerDay = (if msPerDay \<le> now - l then 1 else 0)"
proof -
  define a where "a = now + tz"
  define b where "b = l + tz"
  have D: "0 < msPerDay"
    by (simp add: msPerDay_def)
  have q: "a div msPerDay = b div msPerDay + 1"
    using assms by (simp add: localDay_def a_def b_def)
  have q': "a div msPerDay * msPerDay = b div msPerDay * msPerDay + msPerDay"
    by (simp add: q algebra_simps)
  have ea: "a div msPerDay * msPerDay + a mod msPerDay = a"
    by simp
  have eb: "b div msPerDay * msPerDay + b mod msPerDay = b"
    by simp
  have ba: "0 \<le> a mod msPerDay" "a mod msPerDay < msPerDay"
    using D by simp_all
  have bb: "0 \<le> b mod msPerDay" "b mod msPerDay < msPerDay"
    using D by simp_all
  have lo: "0 < a - b" and hi: "a - b < 2 * msPerDay"
    using ea eb q' ba bb by linarith+
  have ab: "a - b = now - l"
    by (simp add: a_def b_def)
  show ?thesis
  proof (cases "msPerDay \<le> now - l")
    case True
    then have "(now - l) div msPerDay = 1"
      using hi ab by (simp add: div_day_one)
    with True show ?thesis by simp
  next
    case False
    then have "(now - l) div msPerDay = 0"
      using lo ab by (simp add: div_day_zero)
    with False show ?thesis by simp
  qed
qed

text \<open>
  The claim C2 as stated fails: 23:00 UTC of day 0 and 01:00 UTC of day 1 are on
  consecutive days of the calendar, two hours apart, and the streak stays at 3.
\<close>

theorem consecutive_days_counterexample:
  "localDay 0 90000000 = localDay 0 82800000 + 1
 \<and> lastTaskCompletion streakUser = Some 82800000
 \<and> currentStreak streakUser = 3
 \<and> currentStreak (snd (updateStreak 90000000 90000000 90000000 (demoWorld, streakUser))) = 3"
  by code_simp

text \<open>
  C2, amended. For a user with a prior completion \<open>l\<close>, \<open>updateStreak\<close> takes the difference
  in whole days to be the time elapsed from \<open>l\<close> to its own reading \<open>now\<close> of the clock,
  divided by 24 hours and rounded down. At 1 the streak grows by 1, above 1 it is set to
  1, below 1 it stays. \<open>lastTaskCompletion\<close> becomes the completion time passed in, in
  every case. Completions on consecutive days of the calendar increment the streak when
  they are at least 24 hours apart and leave it unchanged otherwise.
\<close>

theorem updateStreak_whole_days:
  assumes "lastTaskCompletion u = Some l"
  shows "((now - l) div 86400000 = 1 \<longrightarrow>
            currentStreak (snd (updateStreak now clk d (w, u))) = currentStreak u + 1)
       \<and> (1 < (now - l) div 86400000 \<longrightarrow>
            currentStreak (snd (updateStreak now clk d (w, u))) = 1)
       \<and> ((now - l) div 86400000 < 1 \<longrightarrow>
            currentStreak (snd (updateStreak now clk d (w, u))) = currentStreak u)
       \<and> lastTaskCompletion (snd (updateStreak now clk d (w, u))) = Some d
       \<and> (localDay tz now = localDay tz l + 1 \<longrightarrow>
            currentStreak (snd (updateStreak now clk d (w, u))) =
              (if 86400000 \<le> now - l then currentStreak u + 1 else currentStreak u))"
proof -
  have D: "msPerDay = 86400000"
    by (simp add: msPerDay_def)
  have "localDay tz now = localDay tz l + 1 \<Longrightarrow>
          (now - l) div 86400000 = (if 86400000 \<le> now - l then 1 else 0)"
    using consecutive_days_diff [of tz now l] by (simp only: D)
  then show ?thesis
    using assms
    by (simp add: currentStreak_updateStreak lastTaskCompletion_updateStreak streakStep_Some D)
qed

theorem updateStreak_whole_days_witness:
  "lastTaskCompletion streakUser = Some 82800000
 \<and> (172000000 - 82800000) div 86400000 = (1::int)
 \<and> localDay 0 172000000 = localDay 0 82800000 + 1
 \<and> currentStreak (snd (updateStreak 172000000 172000001 172000000 (demoWorld, streakUser)))
      = currentStreak streakUser + 1
 \<and> lastTaskCompletion (snd (updateStreak 172000000 172000001 172000000 (demoWorld, streakUser)))
      = Some 172000000"
proof -
  have h: "lastTaskCompletion streakUser = Some 82800000"
    by (simp add: streakUser_def)
  have c: "localDay 0 172000000 = localDay 0 82800000 + 1"
    by (simp add: localDay_def msPerDay_def)
  show ?thesis
    using h c updateStreak_whole_days [OF h, of 172000000 172000001 172000000 demoWorld 0]
    by simp
qed

section \<open>The ledger is kept by every step\<close>

lemma pointsTotal_append:
  "pointsTotal (rs @ [r]) = pointsTotal rs + (if reward_type r = Points then reward_value r else 0)"
  by (simp add: pointsTotal_def)

lemma user_id_addRewardPoints: "user_id (snd (addRewardPoints clk p why wu)) = user_id (snd wu)"
  by (cases wu) (simp add: snd_addRewardPoints)

lemma user_id_updateStreak: "user_id (snd (updateStreak now clk d wu)) = user_id (snd wu)"
  by (cases wu)
     (simp add: updateStreak_def Let_def split_def snd_addRewardPoints streakStep_def
           split: option.splits)

lemma rewardPoints_addRewardPoints:
  "user.rewardPoints (snd (addRewardPoints clk p why wu)) = user.rewardPoints (snd wu) + p"
  by (cases wu) (simp add: snd_addRewardPoints)

lemma rewards_addRewardPoints:
  "rewards (snd (addRewardPoints clk p why wu)) = rewards (snd wu) @
     [\<lparr>reward_type = Points, reward_value = p, reward_description = why, reward_date = clk\<rparr>]"
  by (cases wu) (simp add: snd_addRewardPoints)

lemma fields_addRewardPoints:
  "currentStreak (snd (addRewardPoints clk p why wu)) = currentStreak (snd wu)"
  "lastTaskCompletion (snd (addRewardPoints clk p why wu)) = lastTaskCompletion (snd wu)"
  by (cases wu, simp add: snd_addRewardPoints)+

lemma users_addRewardPoints:
  "users (fst (addRewardPoints clk p why wu))
     = save user_id (snd (addRewardPoints clk p why wu)) (users (fst wu))"
  by (cases wu) (simp add: addRewardPoints_def Let_def saveUser_def)

lemma findUser_mem: "findUser w i = Some u \<Longrightarrow> u \<in> set (users w)"
  by (simp add: findUser_def findById_mem)

lemma findUser_id: "findUser w i = Some u \<Longrightarrow> user_id u = i"
  by (simp add: findUser_def findById_key)

lemma findTask_id: "findTask w i = Some t \<Longrightarrow> task_id t = i"
  by (simp add: findTask_def findById_key)

lemma findUser_saveUser:
  "findUser (saveUser w u) i = (if i = user_id u then Some u else findUser w i)"
  using findById_save [of user_id u "users w"] findById_save_other [of i user_id u "users w"]
  by (simp add: findUser_def saveUser_def)

lemma findTask_saveTask:
  "findTask (saveTask w t) i = (if i = task_id t then Some t else findTask w i)"
  using findById_save [of task_id t "tasks w"] findById_save_other [of i task_id t "tasks w"]
  by (simp add: findTask_def saveTask_def)

lemma findTask_notifications: "findTask (w\<lparr>notifications := ns\<rparr>) i = findTask w i"
  by (simp add: findTask_def)

lemma users_saveTask: "users (saveTask w t) = users w"
  by (simp add: saveTask_def)

lemma findUser_saveTask: "findUser (saveTask w t) i = findUser w i"
  by (simp add: saveTask_def findUser_def)

lemma findById_append:
  "findById key (xs @ ys) i
     = (case findById key xs i of None \<Rightarrow> findById key ys i | Some x \<Rightarrow> Some x)"
  by (induction xs) (simp_all add: findById_def)

lemma findUser_addRewardPoints:
  "findUser (fst (addRewardPoints clk p why wu)) i =
     (if i = user_id (snd wu) then Some (snd (addRewardPoints clk p why wu))
      else findUser (fst wu) i)"
  using findById_save [of user_id "snd (addRewardPoints clk p why wu)" "users (fst wu)"]
        findById_save_other [of i user_id "snd (addRewardPoints clk p why wu)" "users (fst wu)"]
  by (simp add: findUser_def users_addRewardPoints user_id_addRewardPoints)

text \<open>
  \<open>updateStreak\<close> saves the document once more after the nested \<open>addRewardPoints\<close> has
  saved it.
\<close>

lemma fst_updateStreak:
  "fst (updateStreak now clk d wu) =
     saveUser (if jsRem (currentStreak (streakStep now (snd wu))) 10 = 0
               then saveUser (fst wu) (snd (updateStreak now clk d wu)) else fst wu)
       (snd (updateStreak now clk d wu))"
  by (cases wu) (simp add: updateStreak_def Let_def split_def addRewardPoints_def)

lemma findUser_updateStreak:
  "findUser (fst (updateStreak now clk d wu)) i =
     (if i = user_id (snd wu) then Some (snd (updateStreak now clk d wu))
      else findUser (fst wu) i)"
  by (subst fst_updateStreak) (simp add: findUser_saveUser user_id_updateStreak)

lemma set_users_saveUser: "set (users (saveUser w u)) \<subseteq> insert u (set (users w))"
  using set_save [of user_id u "users w"] by (simp add: saveUser_def)

lemma set_users_updateStreak:
  "set (users (fst (updateStreak now clk d wu)))
     \<subseteq> insert (snd (updateStreak now clk d wu)) (set (users (fst wu)))"
proof -
  let ?u = "snd (updateStreak now clk d wu)"
  have a: "set (users (saveUser (fst wu) ?u)) \<subseteq> insert ?u (set (users (fst wu)))"
    by (rule set_users_saveUser)
  have b: "set (users (saveUser (saveUser (fst wu) ?u) ?u))
             \<subseteq> insert ?u (set (users (saveUser (fst wu) ?u)))"
    by (rule set_users_saveUser)
  show ?thesis
    using a b by (subst fst_updateStreak) auto
qed

lemma set_users_addRewardPoints:
  "set (users (fst (addRewardPoints clk p why wu)))
     \<subseteq> insert (snd (addRewardPoints clk p why wu)) (set (users (fst wu)))"
  using set_save [of user_id "snd (addRewardPoints clk p why wu)" "users (fst wu)"]
  by (simp add: users_addRewardPoints)

lemma ledger_addRewardPoints:
  "user.rewardPoints u = pointsTotal (rewards u) \<Longrightarrow>
   user.rewardPoints (snd (addRewardPoints clk p why (w, u)))
     = pointsTotal (rewards (snd (addRewardPoints clk p why (w, u))))"
  by (simp add: snd_addRewardPoints pointsTotal_append)

lemma ledger_updateStreak:
  "user.rewardPoints u = pointsTotal (rewards u) \<Longrightarrow>
   user.rewardPoints (snd (updateStreak now clk d (w, u)))
     = pointsTotal (rewards (snd (updateStreak now clk d (w, u))))"
  by (simp add: rewards_updateStreak rewardPoints_updateStreak pointsTotal_append)

lemma sound_addRewardPoints: "sound (snd wu) \<Longrightarrow> sound (snd (addRewardPoints clk p why wu))"
  by (cases wu) (simp add: sound_def ledger_addRewardPoints, simp add: snd_addRewardPoints)

lemma sound_updateStreak: "sound (snd wu) \<Longrightarrow> sound (snd (updateStreak now clk d wu))"
  by (cases wu)
     (simp add: sound_def ledger_updateStreak currentStreak_updateStreak streakStep_nonneg)

lemma sound_newUser: "sound (newUser i n r)"
  by (simp add: sound_def newUser_def pointsTotal_def)

lemma rewardPoints_updateStreak_mono:
  assumes "0 \<le> currentStreak u"
  shows "user.rewardPoints u \<le> user.rewardPoints (snd (updateStreak now clk d (w, u)))"
  using streakStep_nonneg [OF assms, of now] by (simp add: rewardPoints_updateStreak)

lemma allSound_saveTask: "allSound (saveTask w t) = allSound w"
  by (simp add: allSound_def users_saveTask)

lemma allSound_rewardUser:
  assumes "allSound w"
  shows "allSound (rewardUser now ck why w t)"
proof (cases "findUser w (assignedTo t)")
  case None
  then show ?thesis
    using assms by (simp add: rewardUser_def allSound_def)
next
  case (Some u)
  show ?thesis
  proof (cases "isCompletedOnTime t")
    case False
    then show ?thesis
      using assms Some by (simp add: rewardUser_def)
  next
    case True
    let ?a = "updateStreak (streakNow ck) (bonusDate ck) now (w, u)"
    let ?b = "addRewardPoints (rewardDate ck) (task.rewardPoints t) why ?a"
    have su: "sound u"
      using assms Some findUser_mem by (auto simp: allSound_def)
    have sa: "sound (snd ?a)"
      using su sound_updateStreak [of "(w, u)"] by simp
    have sb: "sound (snd ?b)"
      using sa by (rule sound_addRewardPoints)
    have "set (users (fst ?a)) \<subseteq> insert (snd ?a) (set (users w))"
      using set_users_updateStreak [of "streakNow ck" "bonusDate ck" now "(w, u)"] by simp
    moreover have "set (users (fst ?b)) \<subseteq> insert (snd ?b) (set (users (fst ?a)))"
      by (rule set_users_addRewardPoints)
    ultimately have "set (users (fst ?b)) \<subseteq> insert (snd ?b) (insert (snd ?a) (set (users w)))"
      by auto
    moreover have "rewardUser now ck why w t = fst ?b"
      using Some True by (simp add: rewardUser_def Let_def)
    ultimately show ?thesis
      using assms sa sb by (auto simp: allSound_def)
  qed
qed

lemma allSound_completeTask: "allSound w \<Longrightarrow> allSound (fst (completeTask tz now ck w t))"
  by (simp add: completeTask_def Let_def allSound_rewardUser allSound_saveTask)

lemma allSound_completeTask_tiered:
  "allSound w \<Longrightarrow> allSound (fst (completeTask_tiered now ck w t))"
  by (simp add: completeTask_tiered_def Let_def allSound_rewardUser allSound_saveTask)

lemma users_patchStatus:
  "users (fst (patchStatus tz now ck req bs w)) = users w \<or>
   (\<exists>t. fst (patchStatus tz now ck req bs w) = fst (completeTask tz now ck w t))"
  by (auto simp: patchStatus_def Let_def split_def users_saveTask split: option.splits)

lemma users_addComment: "users (fst (addComment req txt w)) = users w"
  by (simp add: addComment_def Let_def users_saveTask split: option.splits)

lemma users_patchExtensionRequest:
  "users (fst (patchExtensionRequest clk req bs bd w)) = users w"
  by (simp add: patchExtensionRequest_def Let_def users_saveTask
           split: option.splits jsDate.splits)

lemma allSound_patchStatus: "allSound w \<Longrightarrow> allSound (fst (patchStatus tz now ck req bs w))"
  using users_patchStatus [of tz now ck req bs w] allSound_completeTask
  by (auto simp: allSound_def)

lemma allSound_step: "step w w' \<Longrightarrow> allSound w \<Longrightarrow> allSound w'"
proof (induction rule: step.induct)
  case (registered w i n r)
  then show ?case by (simp add: allSound_def sound_newUser register_def)
next
  case (writeTasks w ts)
  then show ?case by (simp add: allSound_def)
next
  case (status w tz now ck req body_status)
  then show ?case by (rule allSound_patchStatus)
next
  case (comment w req body_text)
  then show ?case by (simp add: allSound_def users_addComment)
next
  case (extension w clk req body_status body_newDueDate)
  then show ?case by (simp add: allSound_def users_patchExtensionRequest)
next
  case (complete w tz now ck t)
  then show ?case by (rule allSound_completeTask)
next
  case (completeTiered w now ck t)
  then show ?case by (rule allSound_completeTask_tiered)
qed

lemma allSound_reachable: "reachable w \<Longrightarrow> allSound w"
proof (induction rule: reachable.induct)
  case start
  show ?case by (simp add: allSound_def)
next
  case (later w w')
  then show ?case by (simp add: allSound_step)
qed

lemma findUser_rewardUser:
  "findUser (rewardUser now ck why w t) i =
     (case findUser w (assignedTo t) of
        None \<Rightarrow> findUser w i
      | Some u \<Rightarrow>
          if isCompletedOnTime t \<and> i = user_id u
          then Some (snd (addRewardPoints (rewardDate ck) (task.rewardPoints t) why
                            (updateStreak (streakNow ck) (bonusDate ck) now (w, u))))
          else findUser w i)"
  by (simp add: rewardUser_def Let_def findUser_def findUser_addRewardPoints [unfolded findUser_def]
        findUser_updateStreak [unfolded findUser_def] user_id_updateStreak split: option.splits)

lemma rewardUser_mono:
  assumes "allSound w" and "isCompletedOnTime t \<longrightarrow> 0 \<le> task.rewardPoints t"
      and "findUser w i = Some u"
  shows "\<exists>u'. findUser (rewardUser now ck why w t) i = Some u'
            \<and> user.rewardPoints u \<le> user.rewardPoints u'"
proof (cases "findUser w (assignedTo t)")
  case None
  then show ?thesis
    using assms(3) by (simp add: findUser_rewardUser)
next
  case (Some a)
  show ?thesis
  proof (cases "isCompletedOnTime t \<and> i = user_id a")
    case False
    then show ?thesis
      using assms(3) Some by (auto simp: findUser_rewardUser)
  next
    case True
    have "user_id a = assignedTo t"
      using Some by (rule findUser_id)
    then have "a = u"
      using True Some assms(3) by simp
    have "0 \<le> currentStreak u"
      using assms(1,3) findUser_mem by (auto simp: allSound_def sound_def)
    then have "user.rewardPoints u
        \<le> user.rewardPoints (snd (updateStreak (streakNow ck) (bonusDate ck) now (w, u)))"
      by (rule rewardPoints_updateStreak_mono)
    then show ?thesis
      using True Some assms(2) \<open>a = u\<close>
      by (simp add: findUser_rewardUser rewardPoints_addRewardPoints)
  qed
qed

lemma completeTask_task:
  "snd (completeTask tz now ck w t) =
     t\<lparr>task.status := Completed, completionDate := Some now,
       isCompletedOnTime := (now \<le> endOfDay tz (dueDate t)),
       task.rewardPoints := (if now \<le> endOfDay tz (dueDate t) then 50 else 0)\<rparr>"
  by (simp add: completeTask_def Let_def)

lemma fst_completeTask:
  "fst (completeTask tz now ck w t) =
     rewardUser now ck (''On-time task completion: '' @ title t)
       (saveTask w (snd (completeTask tz now ck w t))) (snd (completeTask tz now ck w t))"
  by (simp add: completeTask_def Let_def)

lemma completeTask_mono:
  assumes "allSound w" and "findUser w i = Some u"
  shows "\<exists>u'. findUser (fst (completeTask tz now ck w t)) i = Some u'
            \<and> user.rewardPoints u \<le> user.rewardPoints u'"
proof -
  let ?t = "snd (completeTask tz now ck w t)"
  have p: "isCompletedOnTime ?t \<longrightarrow> 0 \<le> task.rewardPoints ?t"
    by (simp add: completeTask_task)
  show ?thesis
    unfolding fst_completeTask using assms p
    by (intro rewardUser_mono) (simp_all add: allSound_saveTask findUser_saveTask)
qed

lemma completeTask_tiered_mono:
  assumes "allSound w" and "findUser w i = Some u"
  shows "\<exists>u'. findUser (fst (completeTask_tiered now ck w t)) i = Some u'
            \<and> user.rewardPoints u \<le> user.rewardPoints u'"
proof -
  let ?t = "snd (completeTask_tiered now ck w t)"
  have e: "fst (completeTask_tiered now ck w t) =
        rewardUser now ck (''Task completion reward: '' @ title ?t) (saveTask w ?t) ?t"
    by (simp add: completeTask_tiered_def Let_def)
  have p: "isCompletedOnTime ?t \<longrightarrow> 0 \<le> task.rewardPoints ?t"
    by (simp add: completeTask_tiered_def Let_def priorityBonus_def split: priority.splits)
  show ?thesis
    unfolding e using assms p
    by (intro rewardUser_mono) (simp_all add: allSound_saveTask findUser_saveTask)
qed

lemma step_mono:
  assumes "step w w'" and "allSound w" and "findUser w i = Some u"
  shows "\<exists>u'. findUser w' i = Some u' \<and> user.rewardPoints u \<le> user.rewardPoints u'"
  using assms
proof (induction rule: step.induct)
  case (registered w j n r)
  then show ?case by (simp add: findUser_def findById_append register_def)
next
  case (writeTasks w ts)
  then show ?case by (simp add: findUser_def)
next
  case (status w tz now ck req body_status)
  from users_patchStatus [of tz now ck req body_status w] show ?case
  proof
    assume "users (fst (patchStatus tz now ck req body_status w)) = users w"
    then show ?thesis
      using status by (simp add: findUser_def)
  next
    assume "\<exists>t. fst (patchStatus tz now ck req body_status w) = fst (completeTask tz now ck w t)"
    then show ?thesis
      using status completeTask_mono by auto
  qed
next
  case (comment w req body_text)
  then show ?case by (simp add: findUser_def users_addComment)
next
  case (extension w clk req body_status body_newDueDate)
  then show ?case by (simp add: findUser_def users_patchExtensionRequest)
next
  case (complete w tz now ck t)
  then show ?case by (simp add: completeTask_mono)
next
  case (completeTiered w now ck t)
  then show ?case by (simp add: completeTask_tiered_mono)
qed

lemma reachable_demoWorld: "reachable demoWorld"
proof -
  let ?e = "\<lparr>users = [], tasks = [], notifications = [], errorLog = []\<rparr>"
  let ?w1 = "register ''u1'' ''Asha'' Employee ?e"
  let ?w2 = "register ''a1'' ''Bo'' Admin ?w1"
  let ?w3 = "?w2\<lparr>tasks := [demoTask]\<rparr>"
  have "reachable ?e"
    by (rule reachable.start)
  then have "reachable ?w1"
    by (rule reachable.later) (rule step.registered)
  then have "reachable ?w2"
    by (rule reachable.later) (rule step.registered)
  then have "reachable ?w3"
    by (rule reachable.later) (rule step.writeTasks)
  moreover have "?w3 = demoWorld"
    by (simp add: demoWorld_def register_def)
  ultimately show ?thesis by simp
qed

lemma step_completedOnce: "step demoWorld completedOnce"
  unfolding completedOnce_def by (rule step.status)

lemma users_completedOnce: "users completedOnce = [onceUser, newUser ''a1'' ''Bo'' Admin]"
  by code_simp

text \<open>
  C8. In every reachable world the \<open>rewardPoints\<close> of every user is the sum of the values
  of the entries of type points of the user's reward log. \<open>addRewardPoints\<close> and
  \<open>updateStreak\<close> keep this equality on any user document that has it. No step from a
  reachable world lowers the \<open>rewardPoints\<close> of a stored user.
\<close>

theorem rewardPoints_ledger:
  "(reachable w \<longrightarrow> (\<forall>u \<in> set (users w). user.rewardPoints u = pointsTotal (rewards u)))
 \<and> (user.rewardPoints v = pointsTotal (rewards v) \<longrightarrow>
      user.rewardPoints (snd (addRewardPoints clk p why (w0, v)))
        = pointsTotal (rewards (snd (addRewardPoints clk p why (w0, v)))))
 \<and> (user.rewardPoints v = pointsTotal (rewards v) \<longrightarrow>
      user.rewardPoints (snd (updateStreak now clk d (w0, v)))
        = pointsTotal (rewards (snd (updateStreak now clk d (w0, v)))))
 \<and> (reachable w \<and> step w w' \<and> findUser w i = Some x \<longrightarrow>
      (\<exists>x'. findUser w' i = Some x' \<and> user.rewardPoints x \<le> user.rewardPoints x'))"
proof -
  have a: "reachable w \<longrightarrow> (\<forall>u \<in> set (users w). user.rewardPoints u = pointsTotal (rewards u))"
    using allSound_reachable [of w] by (simp add: allSound_def sound_def)
  have d: "reachable w \<and> step w w' \<and> findUser w i = Some x \<longrightarrow>
      (\<exists>x'. findUser w' i = Some x' \<and> user.rewardPoints x \<le> user.rewardPoints x')"
    using step_mono [of w w' i x] allSound_reachable [of w] by blast
  show ?thesis
    using a d ledger_addRewardPoints [of v clk p why w0] ledger_updateStreak [of v now clk d w0]
    by blast
qed

theorem rewardPoints_ledger_witness:
  "reachable completedOnce
 \<and> onceUser \<in> set (users completedOnce)
 \<and> user.rewardPoints onceUser = pointsTotal (rewards onceUser)
 \<and> user.rewardPoints (snd (addRewardPoints 7 50 ''Draft'' (demoWorld, onceUser)))
      = pointsTotal (rewards (snd (addRewardPoints 7 50 ''Draft'' (demoWorld, onceUser))))
 \<and> user.rewardPoints (snd (updateStreak 8 9 8 (demoWorld, onceUser)))
      = pointsTotal (rewards (snd (updateStreak 8 9 8 (demoWorld, onceUser))))
 \<and> step completedOnce completedTwice
 \<and> findUser completedOnce ''u1'' = Some onceUser
 \<and> (\<exists>x'. findUser completedTwice ''u1'' = Some x'
        \<and> user.rewardPoints onceUser \<le> user.rewardPoints x')"
proof -
  have r: "reachable completedOnce"
    using reachable_demoWorld step_completedOnce by (rule reachable.later)
  have m: "onceUser \<in> set (users completedOnce)"
    by (simp add: users_completedOnce)
  have s: "step completedOnce completedTwice"
    unfolding completedTwice_def by (rule step.status)
  have f: "findUser completedOnce ''u1'' = Some onceUser"
    by (simp add: findUser_def findById_def users_completedOnce onceUser_def)
  show ?thesis
    using r m s f
      rewardPoints_ledger [of completedOnce onceUser 7 50 "''Draft''" demoWorld 8 8
         completedTwice "''u1''" onceUser]
      rewardPoints_ledger [of completedOnce onceUser 9 50 "''Draft''" demoWorld 8 8
         completedTwice "''u1''" onceUser]
    by blast
qed

section \<open>Completing a task again\<close>

text \<open>\<open>completeTask\<close> does not read the status the task had: no guard stops a second run.\<close>

lemma completeTask_status_irrelevant:
  "completeTask tz now ck w (t\<lparr>task.status := s\<rparr>) = completeTask tz now ck w t"
  by (simp add: completeTask_def Let_def)

lemma patchStatus_completed:
  assumes "findTask w (params_id req) = Some t"
      and "assignedTo t = req_user_id req \<or> req_user_role req = Admin"
  shows "fst (patchStatus tz now ck req (Some ''completed'') w) = fst (completeTask tz now ck w t)"
  using assms
  by (auto simp: patchStatus_def validStatus_def Let_def split_def completeTask_status_irrelevant)

text \<open>
  The claim C6 as stated fails: the assignee sets the demo task to completed twice, a
  minute apart and both times before the end of the due day. After the first request the
  assignee has 50 points and one log entry, after the second 100 points and two entries.
\<close>

theorem double_completion_counterexample:
  "map task.status (tasks completedOnce) = [Completed]
 \<and> map user.rewardPoints (users completedOnce) = [50, 0]
 \<and> map (length \<circ> rewards) (users completedOnce) = [1, 0]
 \<and> map user.rewardPoints (users completedTwice) = [100, 0]
 \<and> map (length \<circ> rewards) (users completedTwice) = [2, 0]"
  by code_simp

text \<open>
  C6, amended. Setting the status of a task that is already completed to completed runs
  \<open>completeTask\<close> again. The task's \<open>completionDate\<close>, \<open>isCompletedOnTime\<close> and \<open>rewardPoints\<close>
  are computed anew from the new completion time. When the new completion is on time the
  assignee is awarded again: \<open>rewardPoints\<close> grows by 50 and by the streak bonus if one is
  due, the reward log gets longer and \<open>lastTaskCompletion\<close> is the new time. When it is
  late the users are left as they were.
\<close>

theorem recompletion_awards_again:
  assumes "findTask w (params_id req) = Some t"
      and "task.status t = Completed"
      and "assignedTo t = req_user_id req \<or> req_user_role req = Admin"
      and "findUser w (assignedTo t) = Some u"
  shows "(now \<le> endOfDay tz (dueDate t) \<longrightarrow>
           (\<exists>u'. findUser (fst (patchStatus tz now ck req (Some ''completed'') w)) (assignedTo t)
                    = Some u'
              \<and> user.rewardPoints u' = user.rewardPoints u + 50
                   + (if jsRem (currentStreak u') 10 = 0 then currentStreak u' * 100 else 0)
              \<and> length (rewards u) < length (rewards u')
              \<and> lastTaskCompletion u' = Some now))
       \<and> (endOfDay tz (dueDate t) < now \<longrightarrow>
            users (fst (patchStatus tz now ck req (Some ''completed'') w)) = users w)
       \<and> (\<exists>t'. findTask (fst (patchStatus tz now ck req (Some ''completed'') w)) (params_id req)
                  = Some t'
              \<and> completionDate t' = Some now
              \<and> isCompletedOnTime t' = (now \<le> endOfDay tz (dueDate t))
              \<and> task.rewardPoints t' = (if now \<le> endOfDay tz (dueDate t) then 50 else 0))"
proof -
  let ?w = "fst (patchStatus tz now ck req (Some ''completed'') w)"
  let ?t = "snd (completeTask tz now ck w t)"
  have w: "?w = fst (completeTask tz now ck w t)"
    using assms(1,3) by (rule patchStatus_completed)
  have i: "task_id t = params_id req"
    using assms(1) by (rule findTask_id)
  have a: "assignedTo ?t = assignedTo t"
    by (simp add: completeTask_task)
  have uid: "user_id u = assignedTo t"
    using assms(4) by (rule findUser_id)
  have one: "now \<le> endOfDay tz (dueDate t) \<longrightarrow>
           (\<exists>u'. findUser ?w (assignedTo t) = Some u'
              \<and> user.rewardPoints u' = user.rewardPoints u + 50
                   + (if jsRem (currentStreak u') 10 = 0 then currentStreak u' * 100 else 0)
              \<and> length (rewards u) < length (rewards u')
              \<and> lastTaskCompletion u' = Some now)"
  proof
    assume ot: "now \<le> endOfDay tz (dueDate t)"
    let ?s = "updateStreak (streakNow ck) (bonusDate ck) now (saveTask w ?t, u)"
    let ?u = "snd (addRewardPoints (rewardDate ck) 50 (''On-time task completion: '' @ title t) ?s)"
    have on: "isCompletedOnTime ?t" and fifty: "task.rewardPoints ?t = 50"
      using ot by (simp_all add: completeTask_task)
    have "findUser ?w (assignedTo t) = Some ?u"
      unfolding w fst_completeTask
      using assms(4) on fifty uid a by (simp add: findUser_rewardUser findUser_saveTask)
    moreover have "user.rewardPoints ?u = user.rewardPoints u + 50
                   + (if jsRem (currentStreak ?u) 10 = 0 then currentStreak ?u * 100 else 0)"
      by (simp add: rewardPoints_addRewardPoints rewardPoints_updateStreak fields_addRewardPoints
            currentStreak_updateStreak)
    moreover have "length (rewards u) < length (rewards ?u)"
      by (simp add: rewards_addRewardPoints rewards_updateStreak)
    moreover have "lastTaskCompletion ?u = Some now"
      by (simp add: fields_addRewardPoints lastTaskCompletion_updateStreak)
    ultimately show "\<exists>u'. findUser ?w (assignedTo t) = Some u'
              \<and> user.rewardPoints u' = user.rewardPoints u + 50
                   + (if jsRem (currentStreak u') 10 = 0 then currentStreak u' * 100 else 0)
              \<and> length (rewards u) < length (rewards u')
              \<and> lastTaskCompletion u' = Some now"
      by blast
  qed
  have two: "endOfDay tz (dueDate t) < now \<longrightarrow> users ?w = users w"
    unfolding w by (simp add: users_completeTask_late)
  have "findTask ?w (params_id req) = Some ?t"
    unfolding w using findTask_completeTask [of tz now ck w t] i by simp
  then have three: "\<exists>t'. findTask ?w (params_id req) = Some t'
              \<and> completionDate t' = Some now
              \<and> isCompletedOnTime t' = (now \<le> endOfDay tz (dueDate t))
              \<and> task.rewardPoints t' = (if now \<le> endOfDay tz (dueDate t) then 50 else 0)"
    by (simp add: completeTask_task)
  show ?thesis
    using one two three by blast
qed

theorem recompletion_awards_again_witness:
  "findTask completedOnce (params_id demoRequest) = Some onceTask
 \<and> task.status onceTask = Completed
 \<and> assignedTo onceTask = req_user_id demoRequest
 \<and> findUser completedOnce (assignedTo onceTask) = Some onceUser
 \<and> 1704924060000 \<le> endOfDay 0 (dueDate onceTask)
 \<and> (\<exists>u'. findUser completedTwice (assignedTo onceTask) = Some u'
        \<and> user.rewardPoints u' = user.rewardPoints onceUser + 50
             + (if jsRem (currentStreak u') 10 = 0 then currentStreak u' * 100 else 0)
        \<and> length (rewards onceUser) < length (rewards u')
        \<and> lastTaskCompletion u' = Some 1704924060000)"
proof -
  have t: "findTask completedOnce (params_id demoRequest) = Some onceTask"
    by code_simp
  have s: "task.status onceTask = Completed"
    by (simp add: onceTask_def)
  have a: "assignedTo onceTask = req_user_id demoRequest"
    by (simp add: onceTask_def demoTask_def demoRequest_def)
  have u: "findUser completedOnce (assignedTo onceTask) = Some onceUser"
    by code_simp
  have d: "1704924060000 \<le> endOfDay 0 (dueDate onceTask)"
    by (simp add: onceTask_def demoTask_def endOfDay_def localDay_def msPerDay_def)
  have "\<exists>u'. findUser completedTwice (assignedTo onceTask) = Some u'
        \<and> user.rewardPoints u' = user.rewardPoints onceUser + 50
             + (if jsRem (currentStreak u') 10 = 0 then currentStreak u' * 100 else 0)
        \<and> length (rewards onceUser) < length (rewards u')
        \<and> lastTaskCompletion u' = Some 1704924060000"
    unfolding completedTwice_def
    by (rule recompletion_awards_again [OF t s disjI1 [OF a] u, THEN conjunct1, THEN mp, OF d])
  with t s a u d show ?thesis
    by (intro conjI)
qed

section \<open>A task whose assignee is missing\<close>

text \<open>
  The claim C7 as stated fails on the points of the task: the assignee of the task is no
  user, the completion is on time, and the task gets 50 points.
\<close>

theorem missing_assignee_counterexample:
  "findUser demoWorld (assignedTo ghostTask) = None
 \<and> task.status (snd (completeTask 0 1704924000000 (demoClock 1704924000000) demoWorld ghostTask))
      = Completed
 \<and> task.rewardPoints
      (snd (completeTask 0 1704924000000 (demoClock 1704924000000) demoWorld ghostTask)) = 50"
  by code_simp

text \<open>
  C7, amended. If \<open>assignedTo\<close> is the id of no user, \<open>completeTask\<close> returns the task all
  the same: it is marked completed and saved, an error is logged, and no user document is
  changed. The task's \<open>rewardPoints\<close> are those of the on-time rule, 50 for a completion on
  time and 0 for a late one; no user is credited with them.
\<close>

theorem completeTask_missing_assignee:
  assumes "findUser w (assignedTo t) = None"
  shows "task.status (snd (completeTask tz now ck w t)) = Completed
       \<and> completionDate (snd (completeTask tz now ck w t)) = Some now
       \<and> findTask (fst (completeTask tz now ck w t)) (task_id t)
           = Some (snd (completeTask tz now ck w t))
       \<and> task.rewardPoints (snd (completeTask tz now ck w t))
           = (if now \<le> endOfDay tz (dueDate t) then 50 else 0)
       \<and> users (fst (completeTask tz now ck w t)) = users w
       \<and> errorLog (fst (completeTask tz now ck w t))
           = errorLog w @ [''User '' @ assignedTo t @ '' not found for task '' @ task_id t]"
proof -
  have "findUser (saveTask w (snd (completeTask tz now ck w t))) (assignedTo t) = None"
    using assms by (simp add: findUser_saveTask)
  then have "fst (completeTask tz now ck w t) =
      (saveTask w (snd (completeTask tz now ck w t)))
        \<lparr>errorLog := errorLog w @ [''User '' @ assignedTo t @ '' not found for task '' @ task_id t]\<rparr>"
    by (simp add: fst_completeTask rewardUser_def completeTask_task saveTask_def)
  then show ?thesis
    using findTask_completeTask [of tz now ck w t]
    by (simp add: completeTask_task users_saveTask)
qed

theorem completeTask_missing_assignee_witness:
  "findUser demoWorld (assignedTo ghostTask) = None
 \<and> task.status (snd (completeTask 0 1704931200000 (demoClock 1704931200000) demoWorld ghostTask))
      = Completed
 \<and> task.rewardPoints
      (snd (completeTask 0 1704931200000 (demoClock 1704931200000) demoWorld ghostTask)) = 0
 \<and> users (fst (completeTask 0 1704931200000 (demoClock 1704931200000) demoWorld ghostTask))
      = users demoWorld
 \<and> errorLog (fst (completeTask 0 1704931200000 (demoClock 1704931200000) demoWorld ghostTask))
      = [''User u9 not found for task t1'']"
proof -
  have h: "findUser demoWorld (assignedTo ghostTask) = None"
    by code_simp
  show ?thesis
    using h completeTask_missing_assignee [OF h, of 0 1704931200000 "demoClock 1704931200000"]
    by (simp add: ghostTask_def demoTask_def demoWorld_def endOfDay_def localDay_def
          msPerDay_def)
qed

section \<open>Resolving an extension request\<close>

lemma extension_invalid_date:
  assumes "findTask w (params_id req) = Some t" and "requested (extensionRequest t)"
  shows "patchExtensionRequest clk req (Some ''approved'') (Some InvalidDate) w
           = (w, Fail 500 ''Error handling extension request'')"
  using assms by (simp add: patchExtensionRequest_def dateLe_def)

text \<open>
  The claim C9 as stated fails. The date that an approval gives to the task is the one in
  the body of the admin's request, not the one proposed in the extension request: the
  assignee has proposed 2024-01-12 (1705017600000), the admin approves with 2024-01-13
  (1705104000000), and the task is due on 2024-01-13. And a date that is not after the
  current due date is not always refused as a client error: an approval whose date parses
  to no date is answered with 500.
\<close>

theorem extension_resolution_counterexample:
  "newDueDate (extensionRequest askedTask) = Some 1705017600000
 \<and> map dueDate (tasks (fst (patchExtensionRequest 1704900000000 adminRequest (Some ''approved'')
                           (Some (Instant 1705104000000)) askedWorld))) = [1705104000000]
 \<and> snd (patchExtensionRequest 1704900000000 adminRequest (Some ''approved'')
           (Some InvalidDate) askedWorld) = Fail 500 ''Error handling extension request''
 \<and> tasks (fst (patchExtensionRequest 1704900000000 adminRequest (Some ''approved'')
           (Some InvalidDate) askedWorld)) = [askedTask]"
  by code_simp

text \<open>
  C9, amended. On a task with an open extension request: approval with a valid date after
  the current due date sets the task's \<open>dueDate\<close> to that date, which is the date in the
  body of the admin's request and replaces the date stored in the extension request, and
  sets the request's status to approved; approval with a valid date that is not after the
  current due date is refused as a client error (400) and changes nothing; rejection
  leaves \<open>dueDate\<close> as it was and sets the request's status to rejected.
\<close>

theorem extension_resolution:
  assumes "findTask w (params_id req) = Some t" and "requested (extensionRequest t)"
  shows "(dueDate t < d \<longrightarrow>
           (\<exists>t'. snd (patchExtensionRequest clk req (Some ''approved'') (Some (Instant d)) w)
                    = Ok t'
              \<and> findTask (fst (patchExtensionRequest clk req (Some ''approved'')
                                 (Some (Instant d)) w)) (params_id req) = Some t'
              \<and> dueDate t' = d
              \<and> newDueDate (extensionRequest t') = Some d
              \<and> extensionRequest.status (extensionRequest t') = Approved))
       \<and> (d \<le> dueDate t \<longrightarrow>
            patchExtensionRequest clk req (Some ''approved'') (Some (Instant d)) w
              = (w, Fail 400 ''New due date must be after current due date''))
       \<and> (\<exists>t'. snd (patchExtensionRequest clk req (Some ''rejected'') body_newDueDate w) = Ok t'
              \<and> findTask (fst (patchExtensionRequest clk req (Some ''rejected'') body_newDueDate w))
                   (params_id req) = Some t'
              \<and> dueDate t' = dueDate t
              \<and> extensionRequest.status (extensionRequest t') = Rejected)"
proof -
  have i: "task_id t = params_id req"
    using assms(1) by (rule findTask_id)
  show ?thesis
    using assms i
    by (simp add: patchExtensionRequest_def dateLe_def Let_def findTask_notifications
          findTask_saveTask)
qed

theorem extension_resolution_witness:
  "findTask askedWorld (params_id adminRequest) = Some askedTask
 \<and> requested (extensionRequest askedTask)
 \<and> dueDate askedTask < 1705104000000
 \<and> (\<exists>t'. snd (patchExtensionRequest 1704900000000 adminRequest (Some ''approved'')
                 (Some (Instant 1705104000000)) askedWorld) = Ok t'
        \<and> dueDate t' = 1705104000000
        \<and> newDueDate (extensionRequest t') = Some 1705104000000
        \<and> extensionRequest.status (extensionRequest t') = Approved)
 \<and> (\<exists>t'. snd (patchExtensionRequest 1704900000000 adminRequest (Some ''rejected'') None
                 askedWorld) = Ok t'
        \<and> dueDate t' = dueDate askedTask
        \<and> extensionRequest.status (extensionRequest t') = Rejected)"
proof -
  have t: "findTask askedWorld (params_id adminRequest) = Some askedTask"
    by code_simp
  have r: "requested (extensionRequest askedTask)"
    by (simp add: askedTask_def)
  have d: "dueDate askedTask < 1705104000000"
    by (simp add: askedTask_def demoTask_def)
  show ?thesis
    using t r d extension_resolution [OF t r, of 1705104000000 1704900000000 None]
    by blast
qed

section \<open>Notifications of a comment\<close>







end
